theory Spec2Isabelle
  imports Main
begin

section \<open>Python strings\<close>

text \<open>
  A Python \<open>str\<close> is modelled as a \<open>string\<close>; a \<open>char\<close> stands for the code point
  of the same number, so the model covers text over the code points below 256.
  The character classes below are those of Python 3 on that range.
\<close>

definition is_space :: "char \<Rightarrow> bool" where
  \<comment> \<open>\<open>str.isspace\<close>, the class removed by \<open>str.strip()\<close> and split on by \<open>str.split()\<close>\<close>
  "is_space c =
     (let n = (of_char c :: nat)
      in (9 \<le> n \<and> n \<le> 13) \<or> (28 \<le> n \<and> n \<le> 32) \<or> n = 133 \<or> n = 160)"

definition is_word :: "char \<Rightarrow> bool" where
  \<comment> \<open>the class \<open>\w\<close> of module \<open>re\<close> on a \<open>str\<close> pattern: alphanumeric or underscore\<close>
  "is_word c =
     (let n = (of_char c :: nat)
      in (48 \<le> n \<and> n \<le> 57) \<or> (65 \<le> n \<and> n \<le> 90) \<or> n = 95 \<or> (97 \<le> n \<and> n \<le> 122)
         \<or> n = 170 \<or> n = 178 \<or> n = 179 \<or> n = 181 \<or> n = 185 \<or> n = 186
         \<or> (188 \<le> n \<and> n \<le> 190) \<or> (192 \<le> n \<and> n \<le> 214)
         \<or> (216 \<le> n \<and> n \<le> 246) \<or> (248 \<le> n \<and> n \<le> 255))"

definition lower_char :: "char \<Rightarrow> char" where
  "lower_char c =
     (let n = (of_char c :: nat)
      in if (65 \<le> n \<and> n \<le> 90) \<or> (192 \<le> n \<and> n \<le> 222 \<and> n \<noteq> 215)
         then char_of (n + 32) else c)"

definition lower :: "string \<Rightarrow> string" where
  \<comment> \<open>\<open>str.lower\<close>\<close>
  "lower s = map lower_char s"

definition ascii_letters :: string where
  \<comment> \<open>\<open>string.ascii_letters\<close>\<close>
  "ascii_letters = ''abcdefghijklmnopqrstuvwxyzABCDEFGHIJKLMNOPQRSTUVWXYZ''"

definition strip_pred :: "(char \<Rightarrow> bool) \<Rightarrow> string \<Rightarrow> string" where
  "strip_pred p s = rev (dropWhile p (rev (dropWhile p s)))"

definition strip :: "string \<Rightarrow> string" where
  \<comment> \<open>\<open>s.strip()\<close>\<close>
  "strip s = strip_pred is_space s"

definition strip_chars :: "string \<Rightarrow> string \<Rightarrow> string" where
  \<comment> \<open>\<open>s.strip(chars)\<close>\<close>
  "strip_chars chars s = strip_pred (\<lambda>c. c \<in> set chars) s"

definition startswith :: "string \<Rightarrow> string \<Rightarrow> bool" where
  \<comment> \<open>\<open>s.startswith(p)\<close>\<close>
  "startswith s p = (take (length p) s = p)"

fun split_on :: "char \<Rightarrow> string \<Rightarrow> string list" where
  \<comment> \<open>\<open>s.split(sep)\<close> for a separator of one character\<close>
  "split_on sep [] = [[]]"
| "split_on sep (c # cs) =
     (if c = sep then [] # split_on sep cs
      else (case split_on sep cs of
              [] \<Rightarrow> [[c]]
            | l # ls \<Rightarrow> (c # l) # ls))"

fun join :: "string \<Rightarrow> string list \<Rightarrow> string" where
  \<comment> \<open>\<open>sep.join(xs)\<close>\<close>
  "join sep [] = []"
| "join sep [x] = x"
| "join sep (x # y # ys) = x @ sep @ join sep (y # ys)"

fun split_ws_go :: "string \<Rightarrow> string \<Rightarrow> string list" where
  "split_ws_go cur [] = (if cur = [] then [] else [cur])"
| "split_ws_go cur (c # cs) =
     (if is_space c then (if cur = [] then split_ws_go [] cs else cur # split_ws_go [] cs)
      else split_ws_go (cur @ [c]) cs)"

definition split_ws :: "string \<Rightarrow> string list" where
  \<comment> \<open>\<open>s.split()\<close>: the maximal runs of characters that are not white space\<close>
  "split_ws s = split_ws_go [] s"

subsection \<open>\<open>textwrap.dedent\<close>\<close>

definition is_blank :: "char \<Rightarrow> bool" where
  \<comment> \<open>the class \<open>[ \t]\<close>\<close>
  "is_blank c = (c = CHR '' '' \<or> c = CHR 0x09)"

definition normalize_line :: "string \<Rightarrow> string" where
  \<comment> \<open>a line of blanks only becomes the empty line\<close>
  "normalize_line l = (if list_all is_blank l then [] else l)"

fun common_prefix :: "string \<Rightarrow> string \<Rightarrow> string" where
  "common_prefix (x # xs) (y # ys) = (if x = y then x # common_prefix xs ys else [])"
| "common_prefix xs ys = []"

fun margin_of :: "string list \<Rightarrow> string option" where
  \<comment> \<open>the longest common leading run of blanks of the lines that are not empty\<close>
  "margin_of [] = None"
| "margin_of (l # ls) =
     (if l = [] then margin_of ls
      else (case margin_of ls of
              None \<Rightarrow> Some (takeWhile is_blank l)
            | Some m \<Rightarrow> Some (common_prefix (takeWhile is_blank l) m)))"

definition remove_margin :: "string \<Rightarrow> string \<Rightarrow> string" where
  "remove_margin m l = (if startswith l m then drop (length m) l else l)"

definition dedent :: "string \<Rightarrow> string" where
  "dedent text =
     (let ls = map normalize_line (split_on CHR 0x0A text)
      in case margin_of ls of
           None \<Rightarrow> join [CHR 0x0A] ls
         | Some m \<Rightarrow> join [CHR 0x0A] (map (remove_margin m) ls))"


subsection \<open>\<open>str.upper\<close>, \<open>textwrap.indent\<close>, \<open>str\<close> of a number\<close>

definition upper_char :: "char \<Rightarrow> string" where
  \<comment> \<open>the sharp s becomes two letters; the two letters whose capitals lie beyond the range
      of the model (code points 181 and 255) are left as they are\<close>
  "upper_char c =
     (let n = (of_char c :: nat)
      in if (97 \<le> n \<and> n \<le> 122) \<or> (224 \<le> n \<and> n \<le> 254 \<and> n \<noteq> 247)
         then [char_of (n - 32)]
         else if n = 223 then ''SS'' else [c])"

definition upper :: "string \<Rightarrow> string" where
  "upper s = concat (map upper_char s)"

definition is_linebreak :: "char \<Rightarrow> bool" where
  \<comment> \<open>the line boundaries of \<open>str.splitlines\<close>\<close>
  "is_linebreak c =
     (let n = (of_char c :: nat)
      in (10 \<le> n \<and> n \<le> 13) \<or> (28 \<le> n \<and> n \<le> 30) \<or> n = 133)"

fun splitlines_go :: "string \<Rightarrow> string \<Rightarrow> string list" where
  "splitlines_go cur [] = (if cur = [] then [] else [cur])"
| "splitlines_go cur [c] = [cur @ [c]]"
| "splitlines_go cur (c # d # cs) =
     (if c = CHR 0x0D \<and> d = CHR 0x0A then (cur @ [c, d]) # splitlines_go [] cs
      else if is_linebreak c then (cur @ [c]) # splitlines_go [] (d # cs)
      else splitlines_go (cur @ [c]) (d # cs))"

definition splitlines :: "string \<Rightarrow> string list" where
  \<comment> \<open>\<open>s.splitlines(True)\<close>: the lines with their endings\<close>
  "splitlines s = splitlines_go [] s"

definition indent :: "string \<Rightarrow> string \<Rightarrow> string" where
  \<comment> \<open>\<open>textwrap.indent(text, prefix)\<close>: the prefix before every line that is not white space\<close>
  "indent text prefix =
     concat (map (\<lambda>line. if strip line \<noteq> [] then prefix @ line else line) (splitlines text))"

definition digit_char :: "nat \<Rightarrow> char" where
  "digit_char d = char_of (48 + d)"

fun str_nat :: "nat \<Rightarrow> string" where
  \<comment> \<open>\<open>str(n)\<close> for a natural number\<close>
  "str_nat n = (if n < 10 then [digit_char n] else str_nat (n div 10) @ [digit_char (n mod 10)])"

declare str_nat.simps [simp del]


section \<open>The writers (\<open>writer.py\<close>)\<close>

subsection \<open>Collaborators\<close>

text \<open>
  The account class, the settings and the external programs are not part of the module;
  they are parameters of the model. A key is \<open>None\<close> or a textual key. \<open>get_field\<close>
  returns the message of the \<open>Error\<close> it raises on the left. A field value carries the
  text \<open>str(value)\<close> and what \<open>value.get_name()\<close> gives: \<open>None\<close> when the value has no
  such method (\<open>AttributeError\<close>), otherwise the name, empty when there is none.
\<close>

type_synonym key = "string option"

record field_value =
  str_of :: string
  get_name :: "string option"

record account =
  split_name :: "string option \<Rightarrow> string \<times> key"
  combine_name :: "string \<Rightarrow> key \<Rightarrow> string"
  get_field :: "string \<Rightarrow> key \<Rightarrow> string + field_value"
  is_secret :: "string \<Rightarrow> key \<Rightarrow> bool"

record env =
  display_time :: nat
  indent_setting :: string
  xdotool_executable :: string
  xsel_executable :: string
  LabelColor :: "string \<Rightarrow> string"
  xdotool_fails :: bool  \<comment> \<open>\<open>Run\<close> of xdotool raises \<open>OSError\<close>\<close>
  xsel_fails :: bool  \<comment> \<open>\<open>Run\<close> of xsel raises \<open>Error\<close>\<close>
  interrupt_after :: "nat option"
    \<comment> \<open>the user interrupts the wait that follows this many completed waits, if any\<close>

datatype duration = Initial_Autotype_Delay | Seconds nat

datatype event =
    Log string
  | Warn string key
  | Error_Report string string
  | Fatal_Report string string
  | Terminate_Report string
  | Output string
  | Cursor_Write string
  | Cursor_Clear
  | Sleep duration
  | Keyboard_Interrupt
  | Run_Cmd "string list" "string option"

datatype pyexn = NameError string | TypeError | AssertionError | IndexError

datatype stop =
    Exited  \<comment> \<open>\<open>fatal\<close> or \<open>err.terminate()\<close> ended the process\<close>
  | Uncaught pyexn

text \<open>
  The names bound in the module's global scope: its imports, its globals and its
  classes. A reference to any other name that is not a builtin raises
  \<open>NameError\<close> when it is evaluated.
\<close>

definition writer_globals :: "string list" where
  "writer_globals =
     [''cursor'', ''get_setting'', ''INITIAL_AUTOTYPE_DELAY'', ''Run'', ''Color'', ''Error'',
      ''error'', ''fatal'', ''log'', ''output'', ''warn'', ''sleep'', ''indent'', ''dedent'',
      ''string'', ''re'', ''LabelColor'', ''KEYSYMS'', ''get_writer'', ''Writer'',
      ''TTY_Writer'', ''ClipboardWriter'', ''StdoutWriter'', ''KeyboardWriter'']"

definition lookup_global :: "string \<Rightarrow> pyexn option" where
  "lookup_global name = (if name \<in> set writer_globals then None else Some (NameError name))"

datatype sleep_arg = Num nat | Str string

fun time_sleep :: "sleep_arg \<Rightarrow> pyexn + event" where
  \<comment> \<open>\<open>time.sleep\<close> accepts a number and raises \<open>TypeError\<close> on a \<open>str\<close>\<close>
  "time_sleep (Num n) = Inr (Sleep (Seconds n))"
| "time_sleep (Str s) = Inl TypeError"

subsection \<open>The key symbols\<close>

definition KEYSYMS :: "(char \<times> string) list" where
  "KEYSYMS =
     [(CHR ''!'', ''exclam''),
      (CHR 0x22, ''quotedbl''),
      (CHR ''#'', ''numbersign''),
      (CHR ''$'', ''dollar''),
      (CHR ''%'', ''percent''),
      (CHR ''&'', ''ampersand''),
      (CHR 0x27, ''apostrophe''),
      (CHR ''('', ''parenleft''),
      (CHR '')'', ''parenright''),
      (CHR ''*'', ''asterisk''),
      (CHR ''+'', ''plus''),
      (CHR '','', ''comma''),
      (CHR ''-'', ''minus''),
      (CHR ''.'', ''period''),
      (CHR ''/'', ''slash''),
      (CHR ''0'', ''zero''),
      (CHR ''1'', ''one''),
      (CHR ''2'', ''two''),
      (CHR ''3'', ''three''),
      (CHR ''4'', ''four''),
      (CHR ''5'', ''five''),
      (CHR ''6'', ''six''),
      (CHR ''7'', ''seven''),
      (CHR ''8'', ''eight''),
      (CHR ''9'', ''nine''),
      (CHR '' '', ''space''),
      (CHR '':'', ''colon''),
      (CHR '';'', ''semicolon''),
      (CHR ''<'', ''less''),
      (CHR ''='', ''equal''),
      (CHR ''>'', ''greater''),
      (CHR ''?'', ''question''),
      (CHR ''@'', ''at''),
      (CHR ''['', ''bracketleft''),
      (CHR 0x5C, ''backslash''),
      (CHR '']'', ''bracketright''),
      (CHR ''^'', ''asciicircum''),
      (CHR ''_'', ''underscore''),
      (CHR 0x60, ''grave''),
      (CHR ''{'', ''braceleft''),
      (CHR ''|'', ''bar''),
      (CHR ''}'', ''braceright''),
      (CHR ''~'', ''asciitilde''),
      (CHR 0x0A, ''Return''),
      (CHR 0x09, ''Tab'')]"

definition keysym_of :: "char \<Rightarrow> string option" where
  \<comment> \<open>the letters map to themselves, the rest through the table\<close>
  "keysym_of c = (if c \<in> set ascii_letters then Some [c] else map_of KEYSYMS c)"

subsection \<open>\<open>KeyboardWriter.run_script\<close>\<close>

definition run_xdotool :: "env \<Rightarrow> string list \<Rightarrow> event list \<times> stop option" where
  \<comment> \<open>the handler of \<open>OSError\<close> is \<open>fatal(os_error(err))\<close>\<close>
  "run_xdotool e args =
     (if xdotool_fails e
      then (case lookup_global ''os_error'' of
              Some x \<Rightarrow> ([], Some (Uncaught x))
            | None \<Rightarrow> ([Fatal_Report ''OSError'' []], Some Exited))
      else ([Run_Cmd (xdotool_executable e # args) None], None))"

fun keysyms_loop :: "string \<Rightarrow> string list \<Rightarrow> event list \<Rightarrow> string list \<times> event list" where
  \<comment> \<open>the loop of \<open>autotype\<close>: the key symbols collected and the errors reported so far\<close>
  "keysyms_loop [] keysyms evs = (keysyms, evs)"
| "keysyms_loop (c # cs) keysyms evs =
     (case keysym_of c of
        None \<Rightarrow> keysyms_loop cs keysyms (evs @ [Error_Report ''cannot map to keysym, unknown'' [c]])
      | Some keysym \<Rightarrow>
          (if keysym = []
           then keysyms_loop cs keysyms (evs @ [Error_Report ''cannot map to keysym, unknown'' [c]])
           else keysyms_loop cs (keysyms @ [keysym]) evs))"

definition autotype :: "env \<Rightarrow> string \<Rightarrow> event list \<times> stop option" where
  "autotype e text =
     (let (keysyms, evs) = keysyms_loop text [] [];
          (evs', r) = run_xdotool e ([''key'', ''--clearmodifiers''] @ keysyms)
      in (evs @ evs', r))"

text \<open>
  \<open>re.compile(r'({\w+})').split(script)\<close>: the text before each match, the match itself,
  and so on, ending with the text after the last match. A match begins at an opening brace
  followed by one or more word characters and a closing brace.
\<close>

definition match_command :: "string \<Rightarrow> (string \<times> string) option" where
  \<comment> \<open>a match at the very start of the text: the match and the text after it\<close>
  "match_command s =
     (case s of
        [] \<Rightarrow> None
      | c # r \<Rightarrow>
          (if c = CHR ''{'' \<and> takeWhile is_word r \<noteq> []
           then (case dropWhile is_word r of
                   [] \<Rightarrow> None
                 | d # rest \<Rightarrow>
                     (if d = CHR ''}'' then Some (c # takeWhile is_word r @ [d], rest)
                      else None))
           else None))"

lemma match_command_shorter:
  "match_command s = Some (m, rest) \<Longrightarrow> length rest < length s"
proof -
  assume a: "match_command s = Some (m, rest)"
  then obtain c r where s: "s = c # r" by (cases s) (auto simp: match_command_def)
  from a s obtain d where "dropWhile is_word r = d # rest"
    by (auto simp: match_command_def split: if_splits list.splits)
  then have "length rest < length (dropWhile is_word r)" by simp
  also have "\<dots> \<le> length r" by (rule length_dropWhile_le)
  finally show ?thesis using s by simp
qed

function regex_split_go :: "string \<Rightarrow> string \<Rightarrow> string list" where
  "regex_split_go lit [] = [lit]"
| "regex_split_go lit (c # cs) =
     (case match_command (c # cs) of
        Some (m, rest) \<Rightarrow> lit # m # regex_split_go [] rest
      | None \<Rightarrow> regex_split_go (lit @ [c]) cs)"
  by pat_completeness auto
termination
  by (relation "measure (\<lambda>(lit, s). length s)") (auto dest: match_command_shorter)

definition regex_split :: "string \<Rightarrow> string list" where
  "regex_split script = regex_split_go [] script"


type_synonym script_state = "string list \<times> string list"
  \<comment> \<open>the lists \<open>out\<close> and \<open>scrubbed\<close>\<close>

datatype script = Default_Script | Script string

definition is_command :: "string \<Rightarrow> bool" where
  \<comment> \<open>\<open>term and term[0] == '{' and term[-1] == '}'\<close>\<close>
  "is_command term = (term \<noteq> [] \<and> hd term = CHR ''{'' \<and> last term = CHR ''}'')"

definition command_of :: "string \<Rightarrow> string" where
  \<comment> \<open>\<open>term[1:-1].lower()\<close>\<close>
  "command_of term = lower (butlast (tl term))"

definition syntax_error :: "string \<Rightarrow> event" where
  "syntax_error term = Fatal_Report ''syntax error in keyboard script.'' term"

definition run_sleep ::
  "env \<Rightarrow> string \<Rightarrow> string list \<Rightarrow> script_state \<Rightarrow> event list \<times> (stop + script_state)" where
  \<comment> \<open>the branch \<open>cmd.startswith('sleep ')\<close>, after \<open>cmd = cmd.split()\<close>\<close>
  "run_sleep e term cmd st =
     (case st of (out, scrubbed) \<Rightarrow>
      (case cmd of
         [] \<Rightarrow> ([], Inl (Uncaught IndexError))
       | c0 # _ \<Rightarrow>
           (if c0 \<noteq> ''sleep'' then ([syntax_error term], Inl Exited)
            else if length cmd \<noteq> 2 then ([syntax_error term], Inl Exited)
            else
              (case (if out \<noteq> [] then autotype e (concat out) else ([], None)) of
                 (evs, Some s) \<Rightarrow> (evs, Inl s)
               | (evs, None) \<Rightarrow>
                   (case time_sleep (Str (cmd ! 1)) of
                      Inl x \<Rightarrow>
                        (if x = AssertionError \<or> x = TypeError
                         then (evs @ [syntax_error term], Inl Exited)
                         else (evs, Inl (Uncaught x)))
                    | Inr ev \<Rightarrow>
                        (evs @ [ev], Inr ([], scrubbed @ [''<sleep '' @ cmd ! 1 @ ''>''])))))))"

definition run_field ::
  "account \<Rightarrow> string \<Rightarrow> script_state \<Rightarrow> event list \<times> (stop + script_state)" where
  "run_field a cmd st =
     (case st of (out, scrubbed) \<Rightarrow>
      (case split_name a (Some cmd) of (name, key) \<Rightarrow>
       (case get_field a name key of
          Inl msg \<Rightarrow> ([Terminate_Report msg], Inl Exited)
        | Inr v \<Rightarrow>
            (let value = strip (dedent (str_of v))
             in ([], Inr (out @ [value],
                          scrubbed @ [if is_secret a name key then ''<'' @ cmd @ ''>''
                                      else value]))))))"

definition run_term ::
  "env \<Rightarrow> account \<Rightarrow> string \<Rightarrow> script_state \<Rightarrow> event list \<times> (stop + script_state)" where
  \<comment> \<open>the body of the loop over the terms\<close>
  "run_term e a term st =
     (case st of (out, scrubbed) \<Rightarrow>
      (if is_command term
       then (let cmd = command_of term
             in if cmd = ''tab'' then ([], Inr (out @ [[CHR 0x09]], scrubbed @ [[CHR 0x09]]))
                else if cmd = ''return''
                then ([], Inr (out @ [[CHR 0x0A]], scrubbed @ [[CHR 0x0A]]))
                else if startswith cmd ''sleep '' then run_sleep e term (split_ws cmd) st
                else run_field a cmd st)
       else ([], Inr (out @ [term], scrubbed))))"

fun run_terms ::
  "env \<Rightarrow> account \<Rightarrow> string list \<Rightarrow> script_state \<Rightarrow> event list \<times> (stop + script_state)" where
  "run_terms e a [] st = ([], Inr st)"
| "run_terms e a (t # ts) st =
     (case run_term e a t st of
        (evs, Inl s) \<Rightarrow> (evs, Inl s)
      | (evs, Inr st') \<Rightarrow>
          (case run_terms e a ts st' of (evs', r) \<Rightarrow> (evs @ evs', r)))"

definition script_text :: "account \<Rightarrow> script \<Rightarrow> string" where
  \<comment> \<open>the default script names the default field\<close>
  "script_text a script =
     (case script of
        Default_Script \<Rightarrow>
          (case split_name a None of (name, key) \<Rightarrow>
             ''{'' @ combine_name a name key @ ''}{return}'')
      | Script s \<Rightarrow> s)"

definition run_script :: "env \<Rightarrow> account \<Rightarrow> script \<Rightarrow> event list \<times> stop option" where
  "run_script e a script =
     (case run_terms e a (regex_split (script_text a script)) ([], []) of
        (evs, Inl s) \<Rightarrow> (Sleep Initial_Autotype_Delay # evs, Some s)
      | (evs, Inr (out, scrubbed)) \<Rightarrow>
          (case autotype e (concat out) of
             (evs', r) \<Rightarrow>
               (Sleep Initial_Autotype_Delay # evs
                  @ [Log (''Autotyping '' @ [CHR 0x22] @ concat scrubbed @ [CHR 0x22] @ ''.'')] @ evs', r)))"


subsection \<open>\<open>TTY_Writer.display_field\<close>\<close>

definition secret_newlines_warning :: "key \<Rightarrow> event" where
  "secret_newlines_warning key =
     Warn ''secret contains newlines, will not be fully concealed.'' key"

definition tty_display_field ::
  "env \<Rightarrow> account \<Rightarrow> string option \<Rightarrow> event list \<times> stop option" where
  "tty_display_field e a field =
     (case split_name a field of (name, key) \<Rightarrow>
      (let secret = is_secret a name key
       in case get_field a name key of
            Inl msg \<Rightarrow> ([Terminate_Report msg], Some Exited)
          | Inr v \<Rightarrow>
              (let tvalue = strip (dedent (str_of v));
                   multiline = (CHR 0x0A \<in> set tvalue);
                   warning = (if multiline \<and> secret then [secret_newlines_warning key] else []);
                   tvalue' = (if multiline \<and> \<not> secret
                              then strip_chars [CHR 0x0A] (indent (dedent tvalue) (indent_setting e))
                              else tvalue);
                   sep = (if multiline \<and> \<not> secret then [CHR 0x0A] else '' '');
                   label = combine_name a name key;
                   label' = (case get_name v of
                               None \<Rightarrow> upper label
                             | Some alt_name \<Rightarrow>
                                 (if alt_name \<noteq> [] then upper label @ '' ('' @ alt_name @ '')''
                                  else upper label));
                   text = LabelColor e (label' @ '':'') @ sep @ tvalue'
               in (warning @ [Log (''Writing to TTY: '' @ label)] @
                   (if secret
                    then (if interrupt_after e = Some 0
                          then [Cursor_Write (text @ '' ''), Keyboard_Interrupt, Cursor_Clear]
                          else [Cursor_Write (text @ '' ''), Sleep (Seconds (display_time e)),
                                Cursor_Clear])
                    else [Output text]),
                   None))))"

subsection \<open>\<open>ClipboardWriter.display_field\<close>\<close>

fun countdown :: "nat option \<Rightarrow> nat \<Rightarrow> nat \<Rightarrow> event list" where
  \<comment> \<open>the loop over \<open>range(display_time, -1, -1)\<close>, left at an interrupt\<close>
  "countdown intr i 0 =
     (if intr = Some i then [Cursor_Write (str_nat 0), Keyboard_Interrupt, Cursor_Clear]
      else [Cursor_Write (str_nat 0), Sleep (Seconds 1), Cursor_Clear])"
| "countdown intr i (Suc t) =
     (if intr = Some i then [Cursor_Write (str_nat (Suc t)), Keyboard_Interrupt, Cursor_Clear]
      else [Cursor_Write (str_nat (Suc t)), Sleep (Seconds 1), Cursor_Clear]
             @ countdown intr (Suc i) t)"

text \<open>
  Both calls of \<open>Run\<close> take the path of the program from \<open>get_settings\<close>. The module
  imports \<open>get_setting\<close> only, so the evaluation of the first call's argument stops with
  \<open>NameError\<close>, which the handler of \<open>Error\<close> does not catch. The rest of the method is
  modelled as it is written, for a module in which the name is bound to the settings.
\<close>

definition clipboard_display_field ::
  "env \<Rightarrow> account \<Rightarrow> string option \<Rightarrow> event list \<times> stop option" where
  "clipboard_display_field e a field =
     (case split_name a field of (name, key) \<Rightarrow>
      (let secret = is_secret a name key
       in case get_field a name key of
            Inl msg \<Rightarrow> ([Terminate_Report msg], Some Exited)
          | Inr v \<Rightarrow>
              (let value = strip (dedent (str_of v))
               in case lookup_global ''get_settings'' of
                    Some x \<Rightarrow> ([Log ''Writing to clipboard.''], Some (Uncaught x))
                  | None \<Rightarrow>
                      (if xsel_fails e
                       then ([Log ''Writing to clipboard.'', Terminate_Report ''xsel''],
                             Some Exited)
                       else if secret
                       then ([Log ''Writing to clipboard.'',
                              Run_Cmd [xsel_executable e, ''-b'', ''-i''] (Some value)]
                             @ countdown (interrupt_after e) 0 (display_time e)
                             @ [Run_Cmd [xsel_executable e, ''-b'', ''-c''] None], None)
                       else ([Log ''Writing to clipboard.'',
                              Run_Cmd [xsel_executable e, ''-b'', ''-i''] (Some value)],
                             None)))))"

subsection \<open>What reaches each sink\<close>

text \<open>
  The reporting functions of \<open>inform\<close> write their messages to the log file: \<open>log\<close>,
  whose message goes nowhere else, and likewise \<open>warn\<close>, \<open>error\<close>, \<open>fatal\<close>, \<open>output\<close>
  and the report of an \<open>Error\<close> that terminates. What the writers send to the cursor, to
  the keyboard program and to the clipboard program does not pass through them.
\<close>

fun reaches_log_file :: "event \<Rightarrow> bool" where
  "reaches_log_file (Log m) = True"
| "reaches_log_file (Warn m k) = True"
| "reaches_log_file (Error_Report m c) = True"
| "reaches_log_file (Fatal_Report m c) = True"
| "reaches_log_file (Terminate_Report m) = True"
| "reaches_log_file (Output m) = True"
| "reaches_log_file (Cursor_Write m) = False"
| "reaches_log_file Cursor_Clear = False"
| "reaches_log_file (Sleep d) = False"
| "reaches_log_file Keyboard_Interrupt = False"
| "reaches_log_file (Run_Cmd cmd inp) = False"

definition logged :: "event list \<Rightarrow> event list" where
  \<comment> \<open>what a run writes to the log file, in order\<close>
  "logged evs = filter reaches_log_file evs"

definition log_calls :: "event list \<Rightarrow> string list" where
  \<comment> \<open>the strings passed to \<open>log\<close> itself\<close>
  "log_calls evs = concat (map (\<lambda>ev. case ev of Log m \<Rightarrow> [m] | _ \<Rightarrow> []) evs)"

definition warned :: "event list \<Rightarrow> event list" where
  "warned evs = filter (\<lambda>ev. case ev of Warn m k \<Rightarrow> True | _ \<Rightarrow> False) evs"

definition clipboard_commands :: "event list \<Rightarrow> event list" where
  \<comment> \<open>the runs of the clipboard program\<close>
  "clipboard_commands evs =
     filter (\<lambda>ev. case ev of Run_Cmd cmd inp \<Rightarrow> take 1 (tl cmd) = [''-b''] | _ \<Rightarrow> False) evs"

text \<open>
  Two states of the interpreter agree when their transcripts are equal and their
  keystroke buffers are both empty or both not; two results agree when both stop or
  both continue in states that agree.
\<close>

definition agree :: "(stop + script_state) \<Rightarrow> (stop + script_state) \<Rightarrow> bool" where
  "agree r r' =
     (case (r, r') of
        (Inl x, Inl y) \<Rightarrow> True
      | (Inr (out, scrubbed), Inr (out', scrubbed')) \<Rightarrow>
          scrubbed = scrubbed' \<and> (out = [] \<longleftrightarrow> out' = [])
      | _ \<Rightarrow> False)"

subsection \<open>An account and settings to run the writers on\<close>

definition field_text :: "string \<Rightarrow> string + field_value" where
  "field_text s = Inr \<lparr>str_of = s, get_name = None\<rparr>"

definition login_account :: "string \<Rightarrow> string \<Rightarrow> account" where
  \<comment> \<open>an account with a public \<open>username\<close> and a secret \<open>passcode\<close>, the default field\<close>
  "login_account u p =
     \<lparr>split_name = (\<lambda>field. case field of None \<Rightarrow> (''passcode'', None) | Some n \<Rightarrow> (n, None)),
      combine_name = (\<lambda>name key. name),
      get_field = (\<lambda>name key. if name = ''username'' then field_text u
                               else if name = ''passcode'' then field_text p
                               else Inl ''not found.''),
      is_secret = (\<lambda>name key. name = ''passcode'')\<rparr>"

definition settings :: env where
  "settings =
     \<lparr>display_time = 60, indent_setting = ''    '', xdotool_executable = ''/usr/bin/xdotool'',
      xsel_executable = ''/usr/bin/xsel'', LabelColor = (\<lambda>s. s), xdotool_fails = False,
      xsel_fails = False, interrupt_after = None\<rparr>"


section \<open>The commands that change an accounts file (\<open>command.py\<close>)\<close>

subsection \<open>Files, the user and the collaborators\<close>

text \<open>
  The commands work on three files with distinct paths: the accounts file, its \<open>.saved\<close>
  backup and, for \<open>add\<close>, a temporary file. A file that exists holds a text; an
  encrypted file is identified with the text it encodes. What the command tells the user
  is recorded in order.
\<close>

datatype exn =
    Giving_Up  \<comment> \<open>the \<open>PasswordError\<close> raised when the user declines to try again\<close>
  | Invalid string  \<comment> \<open>the \<open>PasswordError\<close> of \<open>PythonFile.run\<close> on a text it rejects\<close>
  | OS_Error
  | Unknown_Template string

datatype report =
    Said string  \<comment> \<open>\<open>output\<close>\<close>
  | Error_Said exn  \<comment> \<open>\<open>error\<close>\<close>
  | Codicil_Said "string list"
  | Asked string string  \<comment> \<open>the question and the user's answer\<close>

record world =
  accounts_file :: string
  saved_file :: "string option"
  tmp_file :: "string option"
  reports :: "report list"

datatype run_result = Run_Ok | Run_Invalid string | Run_OSError

text \<open>
  The classes \<open>PythonFile\<close> and \<open>GnuPG\<close>, \<open>ObscuredSecret\<close> and the editor are not part of
  the sources. Running a file depends on its text only; saving and the backup may fail
  with \<open>OSError\<close> and then change nothing; \<open>hide_repr\<close> is the \<open>%r\<close> rendering of what
  \<open>ObscuredSecret.hide\<close> returns. The user is a list of editing sessions, each taking the
  text of the opened file to the text left in it, and a list of answers to the question
  whether to try again. A run that needs more sessions or answers than the lists hold is
  still waiting for the user: its result is \<open>None\<close>.
\<close>

record store =
  run_code :: "string \<Rightarrow> run_result"
  backup_fails :: bool
  save_fails :: "string \<Rightarrow> bool"
  tmp_save_fails :: bool
  hide_repr :: "string \<Rightarrow> string"
  tmpfilename :: string

type_synonym editing = "string \<Rightarrow> string"

definition backup :: "world \<Rightarrow> world" where
  \<comment> \<open>Modelled from the spec: \<open>PythonFile.backup\<close> (module \<open>gpg\<close>) duplicates the bytes of
      the file under the suffix.\<close>
  "backup w = w\<lparr>saved_file := Some (accounts_file w)\<rparr>"

definition restore :: "world \<Rightarrow> world" where
  \<comment> \<open>Modelled from the spec: \<open>PythonFile.restore\<close> (module \<open>gpg\<close>) copies the backup back
      over the original, and does nothing without a backup.\<close>
  "restore w = (case saved_file w of None \<Rightarrow> w | Some b \<Rightarrow> w\<lparr>accounts_file := b\<rparr>)"

definition tell :: "report list \<Rightarrow> world \<Rightarrow> world" where
  "tell rs w = w\<lparr>reports := reports w @ rs\<rparr>"

definition accepts :: "string \<Rightarrow> bool" where
  \<comment> \<open>\<open>response.lower() in ['y', 'yes']\<close>\<close>
  "accepts response = (lower response \<in> set [''y'', ''yes''])"

datatype outcome =
    Committed  \<comment> \<open>the new text passed the check\<close>
  | Ignored  \<comment> \<open>\<open>add\<close> returned at the unchanged text\<close>
  | Rolled_Back exn  \<comment> \<open>the handler that calls \<open>restore\<close> ran for this exception\<close>
  | Failed exn  \<comment> \<open>raised before the editing began\<close>

datatype loop_exit = Break | Return_Unchanged | Raise exn

subsection \<open>\<open>Edit.run\<close>\<close>

fun edit_loop ::
  "store \<Rightarrow> world \<Rightarrow> editing list \<Rightarrow> string list \<Rightarrow> (world \<times> loop_exit) option" where
  "edit_loop s w [] answers = None"
| "edit_loop s w (ed # eds) answers =
     (let w1 = w\<lparr>accounts_file := ed (accounts_file w)\<rparr>
      in case run_code s (accounts_file w1) of
           Run_Ok \<Rightarrow> Some (w1, Break)
         | Run_OSError \<Rightarrow> Some (w1, Raise OS_Error)
         | Run_Invalid msg \<Rightarrow>
             (case answers of
                [] \<Rightarrow> None
              | response # rest \<Rightarrow>
                  (let w2 = tell [Error_Said (Invalid msg), Asked ''Try again? '' response] w1
                   in if \<not> accepts response then Some (w2, Raise Giving_Up)
                      else edit_loop s w2 eds rest)))"

definition edit_run ::
  "store \<Rightarrow> world \<Rightarrow> editing list \<Rightarrow> string list \<Rightarrow> (world \<times> outcome) option" where
  \<comment> \<open>from the backup on, for an account that was found\<close>
  "edit_run s w edits answers =
     (if backup_fails s then Some (w, Failed OS_Error)
      else (case edit_loop s (backup w) edits answers of
              None \<Rightarrow> None
            | Some (w', Break) \<Rightarrow> Some (w', Committed)
            | Some (w', Return_Unchanged) \<Rightarrow> Some (w', Ignored)
            | Some (w', Raise x) \<Rightarrow> Some (restore w', Rolled_Back x)))"

subsection \<open>\<open>Add.run\<close>\<close>

definition remove_instructions :: "string \<Rightarrow> string" where
  "remove_instructions new =
     strip_chars [CHR 0x0A]
       (join [CHR 0x0A]
          (filter (\<lambda>l. \<not> startswith l ''# Avendesora:'') (split_on CHR 0x0A new)))
     @ [CHR 0x0A]"

fun find_close :: "string \<Rightarrow> (string \<times> string) option" where
  \<comment> \<open>the shortest run without a line break that is followed by \<open>>>\<close>, and the text after\<close>
  "find_close [] = None"
| "find_close (c # cs) =
     (if startswith (c # cs) ''>>'' then Some ([], drop 2 (c # cs))
      else if c = CHR 0x0A then None
      else (case find_close cs of
              None \<Rightarrow> None
            | Some (g, rest) \<Rightarrow> Some (c # g, rest)))"

lemma find_close_shorter: "find_close s = Some (g, rest) \<Longrightarrow> length rest < length s"
  by (induction s arbitrary: g) (auto simp: startswith_def split: if_splits option.splits)

function hide_spans :: "(string \<Rightarrow> string) \<Rightarrow> string \<Rightarrow> string" where
  \<comment> \<open>\<open>re.sub("<<(.*?)>>", hide, new)\<close>\<close>
  "hide_spans h [] = []"
| "hide_spans h (c # cs) =
     (if startswith (c # cs) ''<<''
      then (case find_close (drop 2 (c # cs)) of
              Some (g, rest) \<Rightarrow> ''Hidden('' @ h g @ '')'' @ hide_spans h rest
            | None \<Rightarrow> c # hide_spans h cs)
      else c # hide_spans h cs)"
  by pat_completeness auto
termination
proof (relation "measure (\<lambda>(h, s). length s)")
  show "wf (measure (\<lambda>(h, s). length s))" by simp
next
  fix h :: "string \<Rightarrow> string" and c cs x2 x y
  assume "find_close (drop 2 (c # cs)) = Some x2" and "(x, y) = x2"
  then have "length y < length (drop 2 (c # cs))" by (auto dest: find_close_shorter)
  then show "((h, y), (h, c # cs)) \<in> measure (\<lambda>(h, s). length s)" by simp
qed auto

fun add_loop ::
  "store \<Rightarrow> string \<Rightarrow> string \<Rightarrow> world \<Rightarrow> editing list \<Rightarrow> string list
     \<Rightarrow> (world \<times> loop_exit) option" where
  "add_loop s template orig_accounts_code w [] answers = None"
| "add_loop s template orig_accounts_code w (ed # eds) answers =
     (let w1 = w\<lparr>tmp_file := map_option ed (tmp_file w)\<rparr>
      in case tmp_file w1 of
           None \<Rightarrow> Some (w1, Raise OS_Error)
         | Some new \<Rightarrow>
             (if strip new = [] \<or> new = template
              then Some (tell [Said ''Unchanged, and so ignored.''] w1, Return_Unchanged)
              else
                (let new' = hide_spans (hide_repr s) (remove_instructions new);
                     accounts = orig_accounts_code @ [CHR 0x0A, CHR 0x0A, CHR 0x0A] @ new'
                 in if save_fails s accounts then Some (w1, Raise OS_Error)
                    else
                      (let w2 = w1\<lparr>accounts_file := accounts\<rparr>
                       in case run_code s accounts of
                            Run_Ok \<Rightarrow> Some (w2, Break)
                          | Run_OSError \<Rightarrow> Some (w2, Raise OS_Error)
                          | Run_Invalid msg \<Rightarrow>
                              (case answers of
                                 [] \<Rightarrow> None
                               | response # rest \<Rightarrow>
                                   (let w3 = tell [Error_Said (Invalid msg),
                                                   Asked ''Try again?'' response] w2
                                    in if \<not> accepts response then Some (w3, Raise Giving_Up)
                                       else add_loop s template orig_accounts_code w3 eds
                                              rest))))))"

definition add_run ::
  "store \<Rightarrow> (string \<rightharpoonup> string) \<Rightarrow> string \<Rightarrow> world \<Rightarrow> editing list \<Rightarrow> string list
     \<Rightarrow> (world \<times> outcome) option" where
  \<comment> \<open>from the choice of the template on\<close>
  "add_run s templates template_name w edits answers =
     (case templates template_name of
        None \<Rightarrow> Some (w, Failed (Unknown_Template template_name))
      | Some t \<Rightarrow>
          (let template = strip (dedent t) @ [CHR 0x0A]
           in case run_code s (accounts_file w) of
                Run_Invalid msg \<Rightarrow> Some (w, Failed (Invalid msg))
              | Run_OSError \<Rightarrow> Some (w, Failed OS_Error)
              | Run_Ok \<Rightarrow>
                  (if backup_fails s then Some (w, Failed OS_Error)
                   else if tmp_save_fails s then Some (backup w, Failed OS_Error)
                   else
                     (case add_loop s template (strip_chars [CHR 0x0A] (accounts_file w))
                             ((backup w)\<lparr>tmp_file := Some template\<rparr>) edits answers of
                        None \<Rightarrow> None
                      | Some (w', Break) \<Rightarrow> Some (w'\<lparr>tmp_file := None\<rparr>, Committed)
                      | Some (w', Return_Unchanged) \<Rightarrow> Some (w', Ignored)
                      | Some (w', Raise x) \<Rightarrow>
                          Some (tell [Error_Said x,
                                      Codicil_Said
                                        [[], ''What you entered can be found in ''
                                               @ tmpfilename s @ ''.'',
                                         ''Delete it when done with it.'']]
                                  (restore w'),
                                Rolled_Back x)))))"

subsection \<open>A store and a user to run the commands on\<close>

definition python_store :: store where
  \<comment> \<open>a store that rejects every text in which the word \<open>oops\<close> begins a line\<close>
  "python_store =
     \<lparr>run_code = (\<lambda>code. if list_ex (\<lambda>l. startswith l ''oops'') (split_on CHR 0x0A code)
                         then Run_Invalid ''invalid syntax'' else Run_Ok),
      backup_fails = False, save_fails = (\<lambda>code. False), tmp_save_fails = False,
      hide_repr = (\<lambda>secret. ''...''), tmpfilename = ''/tmp/tmp_avendesora.gpg''\<rparr>"

definition accounts_world :: world where
  "accounts_world =
     \<lparr>accounts_file = ''class Bank(Account): pass'' @ [CHR 0x0A], saved_file = None,
      tmp_file = None, reports = []\<rparr>"

definition account_templates :: "string \<rightharpoonup> string" where
  "account_templates = [''bank'' \<mapsto> ''class _NAME_(Account): pass'']"

definition leaves_unchanged :: editing where
  \<comment> \<open>the user closes the editor without a change\<close>
  "leaves_unchanged old = old"

definition replaces_by :: "string \<Rightarrow> editing" where
  \<comment> \<open>the user replaces the whole text\<close>
  "replaces_by new old = new"


section \<open>Properties of the writers\<close>

subsection \<open>The conversion to key symbols\<close>

lemma keysym_nonempty: "keysym_of c = Some k \<Longrightarrow> k \<noteq> []"
  by (auto simp: keysym_of_def KEYSYMS_def split: if_splits)

lemma keysyms_loop_eq:
  "keysyms_loop s ks evs =
     (ks @ List.map_filter keysym_of s,
      evs @ map (\<lambda>c. Error_Report ''cannot map to keysym, unknown'' [c])
              (filter (\<lambda>c. keysym_of c = None) s))"
proof (induction s arbitrary: ks evs)
  case Nil
  then show ?case by (simp add: List.map_filter_simps)
next
  case (Cons c s)
  show ?case
  proof (cases "keysym_of c")
    case None
    then show ?thesis using Cons by (simp add: List.map_filter_simps)
  next
    case (Some k)
    then have "k \<noteq> []" by (rule keysym_nonempty)
    with Some show ?thesis using Cons by (simp add: List.map_filter_simps)
  qed
qed


text \<open>
  C9. When \<open>autotype\<close> converts the keystroke buffer, every character without a key symbol
  is reported with \<open>error\<close>, which does not stop the conversion; the key symbols of all
  other characters are then handed to the keyboard program in one call, in their order in
  the buffer, provided the program can be run.
\<close>

theorem autotype_skips_unmapped:
  assumes "\<not> xdotool_fails e"
  shows "autotype e text =
           (map (\<lambda>c. Error_Report ''cannot map to keysym, unknown'' [c])
              (filter (\<lambda>c. keysym_of c = None) text)
            @ [Run_Cmd (xdotool_executable e # ''key'' # ''--clearmodifiers''
                          # List.map_filter keysym_of text) None],
            None)"
  using assms by (simp add: autotype_def keysyms_loop_eq run_xdotool_def)

theorem autotype_skips_unmapped_witness:
  "\<not> xdotool_fails settings \<and>
   autotype settings [CHR ''a'', CHR 0xE9, CHR '':'', CHR 0x01, CHR ''Z''] =
     ([Error_Report ''cannot map to keysym, unknown'' [CHR 0xE9],
       Error_Report ''cannot map to keysym, unknown'' [CHR 0x01],
       Run_Cmd [''/usr/bin/xdotool'', ''key'', ''--clearmodifiers'', ''a'', ''colon'', ''Z''] None],
      None)"
proof -
  have h: "\<not> xdotool_fails settings" by (simp add: settings_def)
  show ?thesis
    using h autotype_skips_unmapped [OF h, of "[CHR ''a'', CHR 0xE9, CHR '':'', CHR 0x01, CHR ''Z'']"]
    by (simp add: settings_def keysym_of_def KEYSYMS_def ascii_letters_def List.map_filter_simps)
qed


subsection \<open>The script interpreter on three scripts\<close>

text \<open>
  C4. The claim: literal text between commands goes to both the keystroke buffer and the
  transcript, so that the script \<open>{username}: {passcode}{return}\<close> with the public
  username \<open>foo\<close> and the secret passcode \<open>bar\<close> types \<open>foo: bar\<close> and a line break and
  logs the transcript \<open>foo: <passcode>\<close> and a line break. The interpreter appends
  literal text to \<open>out\<close> only. On this script it types the expected keys, and the
  transcript it logs is \<open>foo<passcode>\<close> and a line break, without the colon and the space.
\<close>

theorem literal_text_missing_in_transcript:
  "run_script settings (login_account ''foo'' ''bar'')
     (Script ''{username}: {passcode}{return}'') =
   ([Sleep Initial_Autotype_Delay,
     Log (''Autotyping '' @ [CHR 0x22] @ ''foo<passcode>'' @ [CHR 0x0A, CHR 0x22] @ ''.''),
     Run_Cmd [''/usr/bin/xdotool'', ''key'', ''--clearmodifiers'',
              ''f'', ''o'', ''o'', ''colon'', ''space'', ''b'', ''a'', ''r'', ''Return''] None],
    None)"
  by code_simp

text \<open>
  C5. The claim: at a well-formed \<open>{sleep N}\<close> the interpreter types what is buffered,
  pauses for N seconds and records \<open><sleep N>\<close> in the transcript. The interpreter
  passes the argument to \<open>sleep\<close> as the \<open>str\<close> it split off, so \<open>sleep\<close> raises
  \<open>TypeError\<close>, and the handler reports a syntax error and ends the process. On the
  script \<open>{tab}{sleep 5}{return}\<close> the tab is typed, nothing is paused for, nothing is
  logged and the line break is never typed.
\<close>

theorem well_formed_sleep_is_fatal:
  "run_script settings (login_account ''foo'' ''bar'') (Script ''{tab}{sleep 5}{return}'') =
   ([Sleep Initial_Autotype_Delay,
     Run_Cmd [''/usr/bin/xdotool'', ''key'', ''--clearmodifiers'', ''Tab''] None,
     Fatal_Report ''syntax error in keyboard script.'' ''{sleep 5}''],
    Some Exited)"
  by code_simp

text \<open>
  C6. The claim: every script that contains a malformed sleep command such as
  \<open>{sleep abc}\<close> is aborted with an error, and no keys of the tokens after it are sent.
  The expression the script is split on matches braces around word characters only, so
  a sleep command, which holds a space, is a command only where nothing but commands or
  the ends of the script surround it. Next to literal text it is literal text: the script
  \<open>a{sleep abc}b\<close> is typed as it stands, the \<open>b\<close> included, and no error is reported.
\<close>

theorem malformed_sleep_typed_as_text:
  "run_script settings (login_account ''foo'' ''bar'') (Script ''a{sleep abc}b'') =
   ([Sleep Initial_Autotype_Delay,
     Log (''Autotyping '' @ [CHR 0x22, CHR 0x22] @ ''.''),
     Run_Cmd [''/usr/bin/xdotool'', ''key'', ''--clearmodifiers'',
              ''a'', ''braceleft'', ''s'', ''l'', ''e'', ''e'', ''p'', ''space'',
              ''a'', ''b'', ''c'', ''braceright'', ''b''] None],
    None)"
  by code_simp

text \<open>
  Where the sleep command is a term of its own, the run does stop there, whatever its
  argument is.
\<close>

lemma malformed_sleep_alone_is_fatal:
  "run_script settings (login_account ''foo'' ''bar'') (Script ''{tab}{sleep abc}{return}'') =
   ([Sleep Initial_Autotype_Delay,
     Run_Cmd [''/usr/bin/xdotool'', ''key'', ''--clearmodifiers'', ''Tab''] None,
     Fatal_Report ''syntax error in keyboard script.'' ''{sleep abc}''],
    Some Exited)"
  by code_simp

lemma run_sleep_stops: "\<exists>x. snd (run_sleep e t cmd st) = Inl x"
  by (auto simp: run_sleep_def split: prod.splits list.splits option.splits)


subsection \<open>The clipboard\<close>

text \<open>
  C3. The claim: a secret disclosed through the clipboard is set on the clipboard, a
  countdown is shown, and the clipboard is cleared at its end or at an interrupt. The
  method refers to \<open>get_settings\<close>, a name the module does not bind, when it builds the
  command that sets the clipboard: the disclosure of the secret passcode stops there with
  \<open>NameError\<close>, after the log entry and before any command is run.
\<close>

theorem clipboard_stops_with_name_error:
  "clipboard_display_field settings (login_account ''foo'' ''bar'') (Some ''passcode'') =
   ([Log ''Writing to clipboard.''], Some (Uncaught (NameError ''get_settings'')))"
  by code_simp

lemma get_settings_unbound: "lookup_global ''get_settings'' = Some (NameError ''get_settings'')"
  by (simp add: lookup_global_def writer_globals_def)

lemma clipboard_never_reached:
  "clipboard_commands (fst (clipboard_display_field e a field)) = []
   \<and> snd (clipboard_display_field e a field) \<noteq> None"
  by (auto simp: clipboard_display_field_def get_settings_unbound clipboard_commands_def Let_def
           split: prod.splits sum.splits)

lemma clipboard_never_warns: "warned (fst (clipboard_display_field e a field)) = []"
  by (auto simp: clipboard_display_field_def get_settings_unbound warned_def Let_def
           split: prod.splits sum.splits)

subsection \<open>The warning about line breaks in a secret\<close>

text \<open>
  The clipboard writer has no warning: for the secret passcode of two lines it warns of
  nothing.
\<close>

theorem clipboard_newline_warning_counterexample:
  "is_secret (login_account ''foo'' (''bar'' @ [CHR 0x0A] @ ''baz'')) ''passcode'' None
   \<and> CHR 0x0A \<in> set (strip (dedent (''bar'' @ [CHR 0x0A] @ ''baz'')))
   \<and> warned (fst (clipboard_display_field settings
                     (login_account ''foo'' (''bar'' @ [CHR 0x0A] @ ''baz''))
                     (Some ''passcode''))) = []"
  by code_simp

text \<open>
  C8, amended. When the terminal writer discloses a field that is marked secret and whose
  text, dedented and stripped, contains a line break, it warns the user that the secret
  will not be fully concealed; the clipboard writer gives no such warning.
\<close>

theorem tty_warns_of_secret_newlines:
  assumes "split_name a field = (name, key)"
    and "get_field a name key = Inr v"
    and "is_secret a name key"
    and "CHR 0x0A \<in> set (strip (dedent (str_of v)))"
  shows "secret_newlines_warning key \<in> set (fst (tty_display_field e a field))
         \<and> warned (fst (clipboard_display_field e a field)) = []"
  using assms by (simp add: tty_display_field_def Let_def clipboard_never_warns)

theorem tty_warns_of_secret_newlines_witness:
  "secret_newlines_warning None
     \<in> set (fst (tty_display_field settings
                   (login_account ''foo'' (''bar'' @ [CHR 0x0A] @ ''baz'')) (Some ''passcode'')))
   \<and> warned (fst (clipboard_display_field settings
                     (login_account ''foo'' (''bar'' @ [CHR 0x0A] @ ''baz''))
                     (Some ''passcode''))) = []"
proof -
  let ?a = "login_account ''foo'' (''bar'' @ [CHR 0x0A] @ ''baz'')"
  have 1: "split_name ?a (Some ''passcode'') = (''passcode'', None)"
    by (simp add: login_account_def)
  have 2: "get_field ?a ''passcode'' None
             = Inr \<lparr>str_of = ''bar'' @ [CHR 0x0A] @ ''baz'', get_name = None\<rparr>"
    by (simp add: login_account_def field_text_def)
  have 3: "is_secret ?a ''passcode'' None" by (simp add: login_account_def)
  have 4: "CHR 0x0A
             \<in> set (strip (dedent (str_of \<lparr>str_of = ''bar'' @ [CHR 0x0A] @ ''baz'',
                                             get_name = None\<rparr>)))"
    by code_simp
  show ?thesis by (rule tty_warns_of_secret_newlines [OF 1 2 3 4])
qed

subsection \<open>What is logged\<close>

lemma log_calls_Nil: "log_calls [] = []"
  by (simp add: log_calls_def)

lemma log_calls_Cons:
  "log_calls (Log m # evs) = m # log_calls evs" "log_calls (Sleep d # evs) = log_calls evs"
  by (simp_all add: log_calls_def)

lemma log_calls_append: "log_calls (xs @ ys) = log_calls xs @ log_calls ys"
  by (simp add: log_calls_def)

lemma log_calls_autotype: "log_calls (fst (autotype e s)) = []"
  by (simp add: autotype_def keysyms_loop_eq run_xdotool_def log_calls_def lookup_global_def
           split: prod.splits)

lemma stops_autotype: "snd (autotype e s) = snd (autotype e s')"
  by (auto simp: autotype_def run_xdotool_def split: prod.splits)

lemma log_calls_run_term: "log_calls (fst (run_term e a t st)) = []"
proof -
  obtain out scrubbed where st: "st = (out, scrubbed)" by (cases st)
  have a: "log_calls (fst (autotype e (concat out))) = []" by (rule log_calls_autotype)
  show ?thesis
    unfolding st run_term_def run_sleep_def run_field_def syntax_error_def Let_def
    using a
    by (auto simp: log_calls_def split: prod.splits list.splits sum.splits option.splits)
qed

lemma log_calls_run_terms: "log_calls (fst (run_terms e a ts st)) = []"
proof (induction ts arbitrary: st)
  case Nil
  then show ?case by (simp add: log_calls_def)
next
  case (Cons t ts)
  have 1: "log_calls (fst (run_term e a t st)) = []" by (rule log_calls_run_term)
  show ?case
  proof (cases "run_term e a t st")
    case (Pair evs r)
    with 1 have evs: "log_calls evs = []" by simp
    show ?thesis
    proof (cases r)
      case (Inl x)
      with Pair evs show ?thesis by simp
    next
      case (Inr st')
      obtain evs' r' where rt: "run_terms e a ts st' = (evs', r')" by (cases "run_terms e a ts st'")
      have "log_calls (fst (run_terms e a ts st')) = []" by (rule Cons.IH)
      with rt have "log_calls evs' = []" by simp
      with Pair Inr evs rt show ?thesis by (simp add: log_calls_append)
    qed
  qed
qed


lemma run_term_agree:
  assumes "split_name a = split_name b" and "is_secret a = is_secret b"
    and "\<forall>name key. \<not> is_secret a name key \<longrightarrow> get_field a name key = get_field b name key"
    and "\<forall>name key. isl (get_field a name key) = isl (get_field b name key)"
    and "out = [] \<longleftrightarrow> out' = []"
  shows "agree (snd (run_term e a t (out, scrubbed))) (snd (run_term e b t (out', scrubbed)))"
proof (cases "is_command t \<and> command_of t \<noteq> ''tab'' \<and> command_of t \<noteq> ''return''")
  case False
  then show ?thesis using assms(5) by (auto simp: run_term_def agree_def Let_def)
next
  case True
  show ?thesis
  proof (cases "startswith (command_of t) ''sleep ''")
    case True
    obtain x where x: "snd (run_sleep e t (split_ws (command_of t)) (out, scrubbed)) = Inl x"
      using run_sleep_stops by blast
    obtain y where y: "snd (run_sleep e t (split_ws (command_of t)) (out', scrubbed)) = Inl y"
      using run_sleep_stops by blast
    from x y True \<open>is_command t \<and> _\<close> show ?thesis
      by (simp add: run_term_def agree_def Let_def)
  next
    case False
    obtain name key where nk: "split_name a (Some (command_of t)) = (name, key)"
      by (cases "split_name a (Some (command_of t))")
    then have nk': "split_name b (Some (command_of t)) = (name, key)" using assms(1) by simp
    have i: "isl (get_field a name key) = isl (get_field b name key)" using assms(4) by blast
    show ?thesis
    proof (cases "get_field a name key")
      case (Inl m)
      then have "isl (get_field b name key)" using i by simp
      then obtain m' where "get_field b name key = Inl m'" by (cases "get_field b name key") auto
      with Inl nk nk' False True show ?thesis
        by (simp add: run_term_def run_field_def agree_def Let_def)
    next
      case (Inr v)
      then have "\<not> isl (get_field b name key)" using i by simp
      then obtain v' where v': "get_field b name key = Inr v'" by (cases "get_field b name key") auto
      show ?thesis
      proof (cases "is_secret a name key")
        case s: True
        then have "is_secret b name key" using assms(2) by simp
        with s Inr v' nk nk' False True show ?thesis
          by (simp add: run_term_def run_field_def agree_def Let_def)
      next
        case s: False
        then have "get_field a name key = get_field b name key" using assms(3) by simp
        moreover from s have "\<not> is_secret b name key" using assms(2) by simp
        ultimately show ?thesis using s Inr v' nk nk' False True
          by (simp add: run_term_def run_field_def agree_def Let_def)
      qed
    qed
  qed
qed

lemma run_terms_agree:
  assumes "split_name a = split_name b" and "is_secret a = is_secret b"
    and "\<forall>name key. \<not> is_secret a name key \<longrightarrow> get_field a name key = get_field b name key"
    and "\<forall>name key. isl (get_field a name key) = isl (get_field b name key)"
  shows "(out = [] \<longleftrightarrow> out' = []) \<Longrightarrow>
         agree (snd (run_terms e a ts (out, scrubbed))) (snd (run_terms e b ts (out', scrubbed)))"
proof (induction ts arbitrary: out out' scrubbed)
  case Nil
  then show ?case by (simp add: agree_def)
next
  case (Cons t ts)
  have step: "agree (snd (run_term e a t (out, scrubbed))) (snd (run_term e b t (out', scrubbed)))"
    using assms Cons.prems by (rule run_term_agree)
  obtain evs r where ra: "run_term e a t (out, scrubbed) = (evs, r)"
    by (cases "run_term e a t (out, scrubbed)")
  obtain evs' r' where rb: "run_term e b t (out', scrubbed) = (evs', r')"
    by (cases "run_term e b t (out', scrubbed)")
  from step ra rb have ag: "agree r r'" by simp
  show ?case
  proof (cases r)
    case (Inl x)
    with ag obtain y where "r' = Inl y" by (cases r') (auto simp: agree_def)
    with Inl ra rb show ?thesis by (simp add: agree_def)
  next
    case (Inr st)
    obtain o1 s1 where st: "st = (o1, s1)" by (cases st)
    from ag Inr st obtain o2 where r': "r' = Inr (o2, s1)" and em: "o1 = [] \<longleftrightarrow> o2 = []"
      by (cases r') (auto simp: agree_def)
    have "agree (snd (run_terms e a ts (o1, s1))) (snd (run_terms e b ts (o2, s1)))"
      using em by (rule Cons.IH)
    with Inr st r' ra rb show ?thesis by (auto split: prod.splits)
  qed
qed


text \<open>
  The strings passed to \<open>log\<close> itself do not depend on the secrets. Take two accounts
  that differ only in the values of their secret fields: they name and split fields alike,
  mark the same fields secret, hold the same public values, and the same fields can be
  read. Then a run of a script, a disclosure on the terminal and a disclosure through the
  clipboard pass the same strings to \<open>log\<close> for both accounts.
\<close>

lemma log_calls_independent_of_secrets:
  assumes "split_name a = split_name b" and "combine_name a = combine_name b"
    and "is_secret a = is_secret b"
    and "\<And>name key. \<not> is_secret a name key \<Longrightarrow> get_field a name key = get_field b name key"
    and "\<And>name key. isl (get_field a name key) = isl (get_field b name key)"
  shows "log_calls (fst (run_script e a script)) = log_calls (fst (run_script e b script))
       \<and> log_calls (fst (tty_display_field e a field)) = log_calls (fst (tty_display_field e b field))
       \<and> log_calls (fst (clipboard_display_field e a field))
           = log_calls (fst (clipboard_display_field e b field))"
proof (intro conjI)
  have same_text: "script_text a script = script_text b script"
    using assms(1,2) by (cases script) (simp_all add: script_text_def)
  have pub: "\<forall>name key. \<not> is_secret a name key \<longrightarrow> get_field a name key = get_field b name key"
    using assms(4) by blast
  have fails: "\<forall>name key. isl (get_field a name key) = isl (get_field b name key)"
    using assms(5) by blast
  have e0: "(([]::string list) = []) \<longleftrightarrow> (([]::string list) = [])" by simp
  let ?ts = "regex_split (script_text b script)"
  obtain evs r where ra: "run_terms e a ?ts ([], []) = (evs, r)"
    by (cases "run_terms e a ?ts ([], [])")
  obtain evs' r' where rb: "run_terms e b ?ts ([], []) = (evs', r')"
    by (cases "run_terms e b ?ts ([], [])")
  have "log_calls (fst (run_terms e a ?ts ([], []))) = []" by (rule log_calls_run_terms)
  with ra have la: "log_calls evs = []" by simp
  have "log_calls (fst (run_terms e b ?ts ([], []))) = []" by (rule log_calls_run_terms)
  with rb have lb: "log_calls evs' = []" by simp
  have "agree (snd (run_terms e a ?ts ([], []))) (snd (run_terms e b ?ts ([], [])))"
    using assms(1,3) pub fails e0 by (rule run_terms_agree)
  with ra rb have ag: "agree r r'" by simp
  show "log_calls (fst (run_script e a script)) = log_calls (fst (run_script e b script))"
  proof (cases r)
    case (Inl x)
    with ag obtain y where "r' = Inl y" by (cases r') (auto simp: agree_def)
    with Inl ra rb la lb same_text show ?thesis
      by (simp add: run_script_def log_calls_Cons log_calls_Nil)
  next
    case (Inr st)
    obtain o1 s1 where st: "st = (o1, s1)" by (cases st)
    from ag Inr st obtain o2 where r': "r' = Inr (o2, s1)"
      by (cases r') (auto simp: agree_def)
    have 1: "log_calls (fst (autotype e (concat o1))) = []" by (rule log_calls_autotype)
    have 2: "log_calls (fst (autotype e (concat o2))) = []" by (rule log_calls_autotype)
    from Inr st r' ra rb la lb same_text 1 2 show ?thesis
      by (auto simp: run_script_def log_calls_append log_calls_Cons log_calls_Nil
               split: prod.splits)
  qed
next
  obtain name key where nk: "split_name a field = (name, key)" by (cases "split_name a field")
  then have nk': "split_name b field = (name, key)" using assms(1) by simp
  have sec: "is_secret b name key = is_secret a name key" using assms(3) by simp
  have cn: "combine_name b name key = combine_name a name key" using assms(2) by simp
  have isl: "isl (get_field a name key) = isl (get_field b name key)" by (rule assms(5))
  show "log_calls (fst (tty_display_field e a field)) = log_calls (fst (tty_display_field e b field))"
    using nk nk' sec cn isl
    by (cases "get_field a name key"; cases "get_field b name key")
       (auto simp: tty_display_field_def Let_def log_calls_def secret_newlines_warning_def)
  show "log_calls (fst (clipboard_display_field e a field))
           = log_calls (fst (clipboard_display_field e b field))"
    using nk nk' sec isl
    by (cases "get_field a name key"; cases "get_field b name key")
       (auto simp: clipboard_display_field_def Let_def log_calls_def lookup_global_def
                   writer_globals_def)
qed

text \<open>
  C2. The claim: in a disclosure or an autotype run no string that reaches the log holds
  the value of a secret field, so that what is logged is the same for two runs that
  differ only in that value. The transcript passed to \<open>log\<close> is scrubbed, as shown above,
  but \<open>autotype\<close> works on the real buffer and reports every character without a key
  symbol with \<open>error\<close>, the character as culprit, and that report is written to the
  log file too. For a secret passcode that is one such character, the character itself
  is logged, and another passcode gives another log.
\<close>

theorem unmapped_secret_character_is_logged:
  "logged (fst (run_script settings (login_account ''foo'' [CHR 0xE9])
                  (Script ''{passcode}{return}''))) =
     [Log (''Autotyping '' @ [CHR 0x22] @ ''<passcode>'' @ [CHR 0x0A, CHR 0x22] @ ''.''),
      Error_Report ''cannot map to keysym, unknown'' [CHR 0xE9]]
   \<and> logged (fst (run_script settings (login_account ''foo'' [CHR 0xE4])
                    (Script ''{passcode}{return}''))) =
     [Log (''Autotyping '' @ [CHR 0x22] @ ''<passcode>'' @ [CHR 0x0A, CHR 0x22] @ ''.''),
      Error_Report ''cannot map to keysym, unknown'' [CHR 0xE4]]"
  by code_simp

section \<open>Properties of the commands\<close>





text \<open>
  The loops return once the user declines: a run is left waiting only when the user's
  sessions or answers run out before that.
\<close>

lemma edit_loop_returns:
  "\<not> list_all accepts answers \<Longrightarrow> length answers \<le> length eds
    \<Longrightarrow> edit_loop s w eds answers \<noteq> None"
proof (induction eds arbitrary: w answers)
  case Nil
  then show ?case by simp
next
  case (Cons ed eds)
  then show ?case
    by (cases answers) (auto simp: Let_def split: run_result.splits)
qed

lemma add_loop_returns:
  "\<not> list_all accepts answers \<Longrightarrow> length answers \<le> length eds
    \<Longrightarrow> add_loop s t c w eds answers \<noteq> None"
proof (induction eds arbitrary: w answers)
  case Nil
  then show ?case by simp
next
  case (Cons ed eds)
  then show ?case
    by (cases answers) (auto simp: Let_def split: run_result.splits option.splits)
qed


text \<open>
  One round of each loop, from what the user does: a text that fails the check and an
  answer that declines end the loop with the exception for giving up; an answer that
  accepts starts the next round.
\<close>

lemma edit_loop_declined:
  assumes "run_code s (ed (accounts_file w)) = Run_Invalid msg" and "\<not> accepts response"
  shows "edit_loop s w (ed # eds) (response # rest) =
           Some (tell [Error_Said (Invalid msg), Asked ''Try again? '' response]
                   (w\<lparr>accounts_file := ed (accounts_file w)\<rparr>),
                 Raise Giving_Up)"
  using assms by (simp add: Let_def)

lemma edit_loop_retried:
  assumes "run_code s (ed (accounts_file w)) = Run_Invalid msg" and "accepts response"
  shows "edit_loop s w (ed # eds) (response # rest) =
           edit_loop s (tell [Error_Said (Invalid msg), Asked ''Try again? '' response]
                          (w\<lparr>accounts_file := ed (accounts_file w)\<rparr>)) eds rest"
  using assms by (simp add: Let_def)

lemma edit_loop_gives_up_after_decline:
  "edit_loop s w eds answers = Some (v, Raise Giving_Up) \<Longrightarrow>
     \<exists>rs msg response.
        reports v = rs @ [Error_Said (Invalid msg), Asked ''Try again? '' response]
        \<and> \<not> accepts response \<and> run_code s (accounts_file v) = Run_Invalid msg"
proof (induction eds arbitrary: w answers)
  case Nil
  then show ?case by simp
next
  case (Cons ed eds)
  then show ?case
    by (auto simp: Let_def tell_def split: run_result.splits list.splits if_splits)
qed

lemma add_loop_gives_up_after_decline:
  "add_loop s t c w eds answers = Some (v, Raise Giving_Up) \<Longrightarrow>
     \<exists>rs msg response.
        reports v = rs @ [Error_Said (Invalid msg), Asked ''Try again?'' response]
        \<and> \<not> accepts response \<and> run_code s (accounts_file v) = Run_Invalid msg"
proof (induction eds arbitrary: w answers)
  case Nil
  then show ?case by simp
next
  case (Cons ed eds)
  then show ?case
    by (auto simp: Let_def tell_def split: run_result.splits list.splits if_splits option.splits)
qed



subsection \<open>The unchanged text\<close>

text \<open>
  \<open>Edit.run\<close> does not compare the text with what it was: when the user leaves the file
  as it is, the command checks it and returns, and tells the user nothing.
\<close>

theorem edit_unchanged_counterexample:
  "edit_run python_store accounts_world [leaves_unchanged] [] =
     Some (\<lparr>accounts_file = ''class Bank(Account): pass'' @ [CHR 0x0A],
             saved_file = Some (''class Bank(Account): pass'' @ [CHR 0x0A]),
             tmp_file = None, reports = []\<rparr>,
           Committed)"
  by code_simp

text \<open>
  C7, amended. When \<open>add\<close> reads back, after the first editing session, a text that is
  empty or equal to the template, it tells the user that the text is unchanged and
  ignored, and returns: the accounts file is as it was, the backup is in place and has not
  been copied back, and the temporary file holds what the user left.
\<close>

theorem add_unchanged:
  assumes "templates template_name = Some t"
    and "run_code s (accounts_file w) = Run_Ok"
    and "\<not> backup_fails s" and "\<not> tmp_save_fails s"
    and "strip (ed (strip (dedent t) @ [CHR 0x0A])) = []
         \<or> ed (strip (dedent t) @ [CHR 0x0A]) = strip (dedent t) @ [CHR 0x0A]"
  shows "add_run s templates template_name w (ed # eds) answers =
           Some (w\<lparr>saved_file := Some (accounts_file w),
                   tmp_file := Some (ed (strip (dedent t) @ [CHR 0x0A])),
                   reports := reports w @ [Said ''Unchanged, and so ignored.'']\<rparr>,
                 Ignored)"
  using assms by (auto simp: add_run_def Let_def backup_def tell_def)


theorem add_unchanged_witness:
  "add_run python_store account_templates ''bank'' accounts_world [leaves_unchanged] [] =
     Some (\<lparr>accounts_file = ''class Bank(Account): pass'' @ [CHR 0x0A],
             saved_file = Some (''class Bank(Account): pass'' @ [CHR 0x0A]),
             tmp_file = Some (''class _NAME_(Account): pass'' @ [CHR 0x0A]),
             reports = [Said ''Unchanged, and so ignored.'']\<rparr>,
           Ignored)"
proof -
  let ?t = "''class _NAME_(Account): pass''"
  have 1: "account_templates ''bank'' = Some ?t" by (simp add: account_templates_def)
  have 2: "run_code python_store (accounts_file accounts_world) = Run_Ok" by code_simp
  have 3: "\<not> backup_fails python_store" by (simp add: python_store_def)
  have 4: "\<not> tmp_save_fails python_store" by (simp add: python_store_def)
  have 5: "strip (leaves_unchanged (strip (dedent ?t) @ [CHR 0x0A])) = []
           \<or> leaves_unchanged (strip (dedent ?t) @ [CHR 0x0A]) = strip (dedent ?t) @ [CHR 0x0A]"
    by (simp add: leaves_unchanged_def)
  have 6: "strip (dedent ?t) = ?t" by code_simp
  show ?thesis
    using add_unchanged
            [where templates = account_templates and template_name = "''bank''" and t = ?t
               and s = python_store and w = accounts_world and ed = leaves_unchanged
               and eds = "[]" and answers = "[]", OF 1 2 3 4 5] 6
    by (simp add: accounts_world_def leaves_unchanged_def)
qed

text \<open>
  C10. The claim: when \<open>add\<close> finds the text unchanged it returns before any commit or
  rollback and leaves the accounts file with its original content, the backup and the
  temporary file staying on disk. The test is made in every round of the loop and the
  return does not restore the backup. When the first text was saved, failed the check
  and the user chose to try again, and the user then empties the temporary file, the
  command reports the text as unchanged and returns with the rejected text still in the
  accounts file.
\<close>

theorem add_unchanged_after_retry_keeps_rejected_text:
  "add_run python_store account_templates ''bank'' accounts_world
     [replaces_by ''oops'', replaces_by []] [''y''] =
   Some (\<lparr>accounts_file = ''class Bank(Account): pass'' @ [CHR 0x0A, CHR 0x0A, CHR 0x0A]
                             @ ''oops'' @ [CHR 0x0A],
           saved_file = Some (''class Bank(Account): pass'' @ [CHR 0x0A]),
           tmp_file = Some [],
           reports = [Error_Said (Invalid ''invalid syntax''), Asked ''Try again?'' ''y'',
                      Said ''Unchanged, and so ignored.'']\<rparr>,
         Ignored)"
  by code_simp

end
